theory Spec2Isabelle
  imports Complex_Main
begin

section \<open>The qubit operator of the notebook\<close>

text \<open>
  The notebook \<^verbatim>\<open>tutorials/algorithms/05_iqpe_from_vqe.ipynb\<close> imports the three
  Pauli operators \<^verbatim>\<open>I\<close>, \<^verbatim>\<open>X\<close>, \<^verbatim>\<open>Z\<close> and combines them with the overloaded Python
  operators \<^verbatim>\<open>*\<close> (scalar multiple), \<^verbatim>\<open>^\<close> (tensor product) and \<^verbatim>\<open>+\<close> (sum).
  An operator value is the expression that built it; \<open>to_matrix\<close> gives its matrix.
\<close>

datatype pauli = I | X | Z

datatype op = Pauli pauli | Mul real op | Tensor op op | Add op op

text \<open>
  Cell 2. In Python \<^verbatim>\<open>*\<close> binds tighter than \<^verbatim>\<open>^\<close>, so \<^verbatim>\<open>c * I ^ Z\<close> is
  \<^verbatim>\<open>(c * I) ^ Z\<close>; \<^verbatim>\<open>+\<close> associates to the left. The float literals are read as the
  decimal numbers they are written as.
  \<^verbatim>\<open>
  H2_op = (-1.052373245772859 * I ^ I) + \
          (0.39793742484318045 * I ^ Z) + \
          (-0.39793742484318045 * Z ^ I) + \
          (-0.01128010425623538 * Z ^ Z) + \
          (0.18093119978423156 * X ^ X)
  \<close>
\<close>

definition H2_op_rhs :: op where
  "H2_op_rhs =
     Add (Add (Add (Add
       (Tensor (Mul (-1.052373245772859) (Pauli I)) (Pauli I))
       (Tensor (Mul 0.39793742484318045 (Pauli I)) (Pauli Z)))
       (Tensor (Mul (-0.39793742484318045) (Pauli Z)) (Pauli I)))
       (Tensor (Mul (-0.01128010425623538) (Pauli Z)) (Pauli Z)))
       (Tensor (Mul 0.18093119978423156 (Pauli X)) (Pauli X))"

fun num_qubits :: "op \<Rightarrow> nat" where
  "num_qubits (Pauli p) = 1"
| "num_qubits (Mul c a) = num_qubits a"
| "num_qubits (Tensor a b) = num_qubits a + num_qubits b"
| "num_qubits (Add a b) = num_qubits a"

text \<open>A sum of operators on different numbers of qubits is rejected by the library.\<close>

fun well_formed :: "op \<Rightarrow> bool" where
  "well_formed (Pauli p) = True"
| "well_formed (Mul c a) = well_formed a"
| "well_formed (Tensor a b) = (well_formed a \<and> well_formed b)"
| "well_formed (Add a b) = (well_formed a \<and> well_formed b \<and> num_qubits a = num_qubits b)"

text \<open>
  The expression as a linear combination: a list of coefficients with the Pauli string
  each one multiplies, in the order of the source.
\<close>

fun terms :: "op \<Rightarrow> (real \<times> pauli list) list" where
  "terms (Pauli p) = [(1, [p])]"
| "terms (Mul c a) = map (\<lambda>(d, ps). (c * d, ps)) (terms a)"
| "terms (Tensor a b) =
     concat (map (\<lambda>(c, ps). map (\<lambda>(d, qs). (c * d, ps @ qs)) (terms b)) (terms a))"
| "terms (Add a b) = terms a @ terms b"

subsection \<open>Matrices\<close>

type_synonym matrix = "real list list"

fun pauli_matrix :: "pauli \<Rightarrow> matrix" where
  "pauli_matrix I = [[1, 0], [0, 1]]"
| "pauli_matrix X = [[0, 1], [1, 0]]"
| "pauli_matrix Z = [[1, 0], [0, -1]]"

definition scale :: "real \<Rightarrow> matrix \<Rightarrow> matrix" where
  "scale c A = map (map (\<lambda>x. c * x)) A"

definition kron :: "matrix \<Rightarrow> matrix \<Rightarrow> matrix" where
  "kron A B =
     concat (map (\<lambda>ra. map (\<lambda>rb. concat (map (\<lambda>a. map (\<lambda>b. a * b) rb) ra)) B) A)"

definition madd :: "matrix \<Rightarrow> matrix \<Rightarrow> matrix" where
  "madd A B = map (\<lambda>(ra, rb). map (\<lambda>(a, b). a + b) (zip ra rb)) (zip A B)"

fun to_matrix :: "op \<Rightarrow> matrix" where
  "to_matrix (Pauli p) = pauli_matrix p"
| "to_matrix (Mul c a) = scale c (to_matrix a)"
| "to_matrix (Tensor a b) = kron (to_matrix a) (to_matrix b)"
| "to_matrix (Add a b) = madd (to_matrix a) (to_matrix b)"

definition mat_vec :: "matrix \<Rightarrow> real list \<Rightarrow> real list" where
  "mat_vec A v = map (\<lambda>r. sum_list (map (\<lambda>(a, x). a * x) (zip r v))) A"

text \<open>
  What the exact solver is documented to compute: the least eigenvalue of the
  operator's matrix. \<open>lam\<close> is an eigenvalue when some non-zero vector is mapped to its
  \<open>lam\<close>-multiple, and the minimum one when no eigenvalue lies below it.
\<close>

definition is_eigenpair :: "matrix \<Rightarrow> real \<Rightarrow> real list \<Rightarrow> bool" where
  "is_eigenpair A lam v \<longleftrightarrow>
     length v = length A \<and> (\<exists>x \<in> set v. x \<noteq> 0) \<and> mat_vec A v = map (\<lambda>x. lam * x) v"

definition is_min_eigenvalue :: "matrix \<Rightarrow> real \<Rightarrow> bool" where
  "is_min_eigenvalue A lam \<longleftrightarrow>
     (\<exists>v. is_eigenpair A lam v) \<and> (\<forall>mu w. is_eigenpair A mu w \<longrightarrow> lam \<le> mu)"

section \<open>The notebook's objects and the library it calls\<close>

text \<open>
  Every object the notebook creates lives at an address of its own. None of them is
  changed after it is built, so a reference carries the address together with the
  contents: two names alias one object exactly when their addresses agree.
\<close>

type_synonym addr = nat

datatype 'a ref = Ref (addr: addr) (obj: 'a)

text \<open>
  The objects are known to the notebook only through the arguments of the constructor
  calls; each is the record of these arguments. An argument that the call leaves out
  (\<^verbatim>\<open>shots\<close> in the first \<^verbatim>\<open>QuantumInstance\<close>) is \<open>None\<close>.
\<close>

record TwoLocal =
  rotation_blocks :: "string list"
  entanglement_blocks :: string
  reps :: nat

record SPSA =
  maxiter :: nat

record QuantumInstance =
  qi_backend :: "string ref"
  shots :: "nat option"
  seed_simulator :: "int option"
  seed_transpiler :: "int option"

record VQE =
  vqe_var_form :: "TwoLocal ref"
  vqe_optimizer :: "SPSA ref"
  vqe_quantum_instance :: "QuantumInstance ref"

record VarFormBased =
  vfb_var_form :: "TwoLocal ref"
  vfb_params :: "real list"

record IQPE =
  state_in :: "VarFormBased ref"
  num_time_slices :: nat
  num_iterations :: nat
  expansion_mode :: string
  expansion_order :: nat
  iqpe_quantum_instance :: "QuantumInstance ref"

text \<open>What a solver hands back; the notebook reads these two attributes only.\<close>

record MinimumEigensolverResult =
  eigenvalue :: complex
  optimal_parameters :: "real list"

text \<open>An f-string is the list of its pieces; \<open>Float5 x\<close> is \<^verbatim>\<open>{x:.5f}\<close>.\<close>

datatype fragment = Text string | Float5 real

text \<open>
  Everything the notebook asks of the interpreter and the library, with the arguments of
  the request. The run keeps the requests made so far, in order.
\<close>

datatype event =
    Import string
  | Operator_expression op
  | New_NumPyMinimumEigensolver unit
  | NPME_compute_minimum_eigenvalue "unit ref" "op ref"
  | Getattr "MinimumEigensolverResult ref" string
  | Print "fragment list"
  | Set_random_seed int
  | New_TwoLocal TwoLocal
  | New_SPSA SPSA
  | Get_backend string
  | New_QuantumInstance QuantumInstance
  | New_VQE VQE
  | VQE_compute_minimum_eigenvalue "VQE ref" "op ref"
  | New_VarFormBased VarFormBased
  | New_IQPE IQPE
  | IQPE_compute_minimum_eigenvalue "IQPE ref" "op ref"
  | Magic string

datatype exn = NameError string | LibraryError string

text \<open>
  The library is not part of the repository. It is a parameter of the model: for a
  request made after the requests \<open>h\<close>, \<open>raises L h c\<close> tells whether the request raises,
  and \<open>returns L h c\<close> is the result a solver computes. Both may depend on all that
  happened before, so a seeded random generator or any other hidden state is covered.
\<close>

record library =
  raises :: "event list \<Rightarrow> event \<Rightarrow> exn option"
  returns :: "event list \<Rightarrow> event \<Rightarrow> MinimumEigensolverResult"

section \<open>The kernel state and the statements\<close>

text \<open>
  The names the notebook binds (\<open>None\<close>: not bound yet), the requests made so far and
  the next free address. Imported names are not tracked: the cells run in order and a
  failing import halts the run.
\<close>

record state =
  H2_op :: "op ref option"
  npme :: "unit ref option"
  result :: "MinimumEigensolverResult ref option"
  ref_value :: "real option"
  seed :: "int option"
  var_form :: "TwoLocal ref option"
  spsa :: "SPSA ref option"
  backend :: "string ref option"
  qi :: "QuantumInstance ref option"
  vqe :: "VQE ref option"
  result_vqe :: "MinimumEigensolverResult ref option"
  vqe_state :: "VarFormBased ref option"
  iqpe :: "IQPE ref option"
  result_iqpe :: "MinimumEigensolverResult ref option"
  trace :: "event list"
  next_addr :: addr

type_synonym 'a nb = "state \<Rightarrow> (exn + 'a) \<times> state"

definition ret :: "'a \<Rightarrow> 'a nb" where
  "ret x s = (Inr x, s)"

definition and_then :: "'a nb \<Rightarrow> ('a \<Rightarrow> 'b nb) \<Rightarrow> 'b nb" where
  "and_then m f s = (case m s of (Inl e, s') \<Rightarrow> (Inl e, s') | (Inr x, s') \<Rightarrow> f x s')"

text \<open>Reading a name that is not bound raises \<^verbatim>\<open>NameError\<close>.\<close>

definition name :: "(state \<Rightarrow> 'a option) \<Rightarrow> string \<Rightarrow> 'a nb" where
  "name var x s = (case var s of None \<Rightarrow> (Inl (NameError x), s) | Some v \<Rightarrow> (Inr v, s))"

definition assign :: "(('a option \<Rightarrow> 'a option) \<Rightarrow> state \<Rightarrow> state) \<Rightarrow> 'a \<Rightarrow> unit nb" where
  "assign upd v s = (Inr (), upd (\<lambda>_. Some v) s)"

text \<open>A request is recorded, then either raises or comes back.\<close>

definition call :: "library \<Rightarrow> event \<Rightarrow> unit nb" where
  "call L c s =
     (case raises L (trace s) c of
        Some e \<Rightarrow> (Inl e, s\<lparr>trace := trace s @ [c]\<rparr>)
      | None \<Rightarrow> (Inr (), s\<lparr>trace := trace s @ [c]\<rparr>))"

definition new :: "'a \<Rightarrow> 'a ref nb" where
  "new v s = (Inr (Ref (next_addr s) v), s\<lparr>next_addr := Suc (next_addr s)\<rparr>)"

text \<open>A constructor call: the request with its arguments, then the fresh object.\<close>

definition construct :: "library \<Rightarrow> ('a \<Rightarrow> event) \<Rightarrow> 'a \<Rightarrow> 'a ref nb" where
  "construct L mk args = and_then (call L (mk args)) (\<lambda>_. new args)"

text \<open>A solver call: the request, then a fresh object holding what the library computed.\<close>

definition solve :: "library \<Rightarrow> event \<Rightarrow> MinimumEigensolverResult ref nb" where
  "solve L c s = and_then (call L c) (\<lambda>_. new (returns L (trace s) c)) s"

definition getattr_eigenvalue :: "library \<Rightarrow> MinimumEigensolverResult ref \<Rightarrow> complex nb" where
  "getattr_eigenvalue L r =
     and_then (call L (Getattr r ''eigenvalue'')) (\<lambda>_. ret (eigenvalue (obj r)))"

definition getattr_optimal_parameters ::
  "library \<Rightarrow> MinimumEigensolverResult ref \<Rightarrow> real list nb" where
  "getattr_optimal_parameters L r =
     and_then (call L (Getattr r ''optimal_parameters'')) (\<lambda>_. ret (optimal_parameters (obj r)))"

definition print :: "library \<Rightarrow> fragment list \<Rightarrow> unit nb" where
  "print L fs = call L (Print fs)"

text \<open>A cell is its statements in order; the first exception ends it.\<close>

fun exec :: "unit nb list \<Rightarrow> unit nb" where
  "exec [] s = (Inr (), s)"
| "exec (st # sts) s = (case st s of (Inl e, s') \<Rightarrow> (Inl e, s') | (Inr _, s') \<Rightarrow> exec sts s')"

text \<open>
  Running the cells in order: the run ends at the first cell that raises, and reports
  the number of that cell with the exception.
\<close>

fun run_cells :: "nat \<Rightarrow> unit nb list list \<Rightarrow> state \<Rightarrow> ((nat \<times> exn) + unit) \<times> state" where
  "run_cells n [] s = (Inr (), s)"
| "run_cells n (c # cs) s =
     (case exec c s of (Inl e, s') \<Rightarrow> (Inl (n, e), s') | (Inr _, s') \<Rightarrow> run_cells (Suc n) cs s')"

section \<open>The cells\<close>

text \<open>
  Cell 1: the eight import statements, each a request to load the module it names.
  \<^verbatim>\<open>
  import numpy as np
  from qiskit import BasicAer
  from qiskit.aqua import aqua_globals, QuantumInstance
  from qiskit.aqua.algorithms import VQE, NumPyMinimumEigensolver, IQPE
  from qiskit.aqua.operators import I, X, Z
  from qiskit.circuit.library import TwoLocal
  from qiskit.aqua.components.optimizers import SPSA
  from qiskit.aqua.components.initial_states.var_form_based import VarFormBased
  \<close>
\<close>

definition imported_modules :: "string list" where
  "imported_modules =
    [''numpy'', ''qiskit'', ''qiskit.aqua'', ''qiskit.aqua.algorithms'',
     ''qiskit.aqua.operators'', ''qiskit.circuit.library'',
     ''qiskit.aqua.components.optimizers'',
     ''qiskit.aqua.components.initial_states.var_form_based'']"

definition cell1 :: "library \<Rightarrow> unit nb list" where
  "cell1 L = map (\<lambda>m. call L (Import m)) imported_modules"

text \<open>Cell 2: \<^verbatim>\<open>H2_op = ...\<close>, the expression above.\<close>

definition cell2 :: "library \<Rightarrow> unit nb list" where
  "cell2 L =
    [and_then (construct L Operator_expression H2_op_rhs) (assign H2_op_update)]"

text \<open>
  Cell 3.
  \<^verbatim>\<open>
  npme = NumPyMinimumEigensolver()
  result = npme.compute_minimum_eigenvalue(operator=H2_op)
  ref_value = result.eigenvalue.real
  print(f'Reference value: {ref_value:.5f}')
  \<close>
\<close>

definition cell3 :: "library \<Rightarrow> unit nb list" where
  "cell3 L =
    [and_then (construct L New_NumPyMinimumEigensolver ()) (assign npme_update),
     and_then (name npme ''npme'') (\<lambda>n.
       and_then (name H2_op ''H2_op'') (\<lambda>h.
       and_then (solve L (NPME_compute_minimum_eigenvalue n h)) (assign result_update))),
     and_then (name result ''result'') (\<lambda>r.
       and_then (getattr_eigenvalue L r) (\<lambda>z. assign ref_value_update (Re z))),
     and_then (name ref_value ''ref_value'') (\<lambda>x.
       print L [Text ''Reference value: '', Float5 x])]"

text \<open>
  Cell 4.
  \<^verbatim>\<open>
  seed = 5
  aqua_globals.random_seed = seed

  var_form = TwoLocal(rotation_blocks=['ry', 'rz'], entanglement_blocks='cz', reps=3)
  spsa = SPSA(maxiter=10)
  backend = BasicAer.get_backend('qasm_simulator')
  qi = QuantumInstance(backend, seed_simulator=seed, seed_transpiler=seed)

  vqe = VQE(var_form=var_form, optimizer=spsa, quantum_instance=qi)
  result_vqe = vqe.compute_minimum_eigenvalue(operator=H2_op)

  print(f'VQE estimated the ground energy to be {result_vqe.eigenvalue.real:.5f}')
  print(f'Delta from reference energy value is {(result_vqe.eigenvalue.real - ref_value):.5f}')
  \<close>
\<close>

definition cell4 :: "library \<Rightarrow> unit nb list" where
  "cell4 L =
    [assign seed_update 5,
     and_then (name seed ''seed'') (\<lambda>k. call L (Set_random_seed k)),
     and_then
       (construct L New_TwoLocal
          \<lparr>rotation_blocks = [''ry'', ''rz''], entanglement_blocks = ''cz'', reps = 3\<rparr>)
       (assign var_form_update),
     and_then (construct L New_SPSA \<lparr>maxiter = 10\<rparr>) (assign spsa_update),
     and_then (construct L Get_backend ''qasm_simulator'') (assign backend_update),
     and_then (name backend ''backend'') (\<lambda>b.
       and_then (name seed ''seed'') (\<lambda>k1.
       and_then (name seed ''seed'') (\<lambda>k2.
       and_then
         (construct L New_QuantumInstance
            \<lparr>qi_backend = b, shots = None, seed_simulator = Some k1, seed_transpiler = Some k2\<rparr>)
         (assign qi_update)))),
     and_then (name var_form ''var_form'') (\<lambda>v.
       and_then (name spsa ''spsa'') (\<lambda>p.
       and_then (name qi ''qi'') (\<lambda>q.
       and_then
         (construct L New_VQE \<lparr>vqe_var_form = v, vqe_optimizer = p, vqe_quantum_instance = q\<rparr>)
         (assign vqe_update)))),
     and_then (name vqe ''vqe'') (\<lambda>v.
       and_then (name H2_op ''H2_op'') (\<lambda>h.
       and_then (solve L (VQE_compute_minimum_eigenvalue v h)) (assign result_vqe_update))),
     and_then (name result_vqe ''result_vqe'') (\<lambda>r.
       and_then (getattr_eigenvalue L r) (\<lambda>z.
       print L [Text ''VQE estimated the ground energy to be '', Float5 (Re z)])),
     and_then (name result_vqe ''result_vqe'') (\<lambda>r.
       and_then (getattr_eigenvalue L r) (\<lambda>z.
       and_then (name ref_value ''ref_value'') (\<lambda>x.
       print L [Text ''Delta from reference energy value is '', Float5 (Re z - x)])))]"

text \<open>Cell 5: \<^verbatim>\<open>vqe_state = VarFormBased(var_form, result_vqe.optimal_parameters)\<close>.\<close>

definition cell5 :: "library \<Rightarrow> unit nb list" where
  "cell5 L =
    [and_then (name var_form ''var_form'') (\<lambda>v.
       and_then (name result_vqe ''result_vqe'') (\<lambda>r.
       and_then (getattr_optimal_parameters L r) (\<lambda>ps.
       and_then (construct L New_VarFormBased \<lparr>vfb_var_form = v, vfb_params = ps\<rparr>)
         (assign vqe_state_update))))]"

text \<open>
  Cell 6. The chained assignment evaluates its right-hand side once and binds the
  object to \<^verbatim>\<open>result_iqpe\<close>, then to \<^verbatim>\<open>result_vqe\<close>.
  \<^verbatim>\<open>
  qi = QuantumInstance(backend, shots=100, seed_simulator=seed, seed_transpiler=seed)

  iqpe = IQPE(state_in=vqe_state, num_time_slices=1, num_iterations=6,
              expansion_mode='suzuki', expansion_order=2, quantum_instance=qi)
  result_iqpe = result_vqe = iqpe.compute_minimum_eigenvalue(operator=H2_op)

  print(f"Continuing with VQE's result, IQPE estimated the ground energy to be {result_iqpe.eigenvalue.real:.5f}")
  print(f'Delta from reference energy value is {(result_iqpe.eigenvalue.real - ref_value):.5f}')
  \<close>
\<close>

definition cell6 :: "library \<Rightarrow> unit nb list" where
  "cell6 L =
    [and_then (name backend ''backend'') (\<lambda>b.
       and_then (name seed ''seed'') (\<lambda>k1.
       and_then (name seed ''seed'') (\<lambda>k2.
       and_then
         (construct L New_QuantumInstance
            \<lparr>qi_backend = b, shots = Some 100, seed_simulator = Some k1,
             seed_transpiler = Some k2\<rparr>)
         (assign qi_update)))),
     and_then (name vqe_state ''vqe_state'') (\<lambda>v.
       and_then (name qi ''qi'') (\<lambda>q.
       and_then
         (construct L New_IQPE
            \<lparr>state_in = v, num_time_slices = 1, num_iterations = 6,
             expansion_mode = ''suzuki'', expansion_order = 2, iqpe_quantum_instance = q\<rparr>)
         (assign iqpe_update))),
     and_then (name iqpe ''iqpe'') (\<lambda>i.
       and_then (name H2_op ''H2_op'') (\<lambda>h.
       and_then (solve L (IQPE_compute_minimum_eigenvalue i h)) (\<lambda>r.
       and_then (assign result_iqpe_update r) (\<lambda>_. assign result_vqe_update r)))),
     and_then (name result_iqpe ''result_iqpe'') (\<lambda>r.
       and_then (getattr_eigenvalue L r) (\<lambda>z.
       print L
         [Text ''Continuing with VQE's result, IQPE estimated the ground energy to be '',
          Float5 (Re z)])),
     and_then (name result_iqpe ''result_iqpe'') (\<lambda>r.
       and_then (getattr_eigenvalue L r) (\<lambda>z.
       and_then (name ref_value ''ref_value'') (\<lambda>x.
       print L [Text ''Delta from reference energy value is '', Float5 (Re z - x)])))]"

text \<open>Cell 7: the version table and the copyright notice.\<close>

definition cell7 :: "library \<Rightarrow> unit nb list" where
  "cell7 L =
    [call L (Import ''qiskit.tools.jupyter''),
     call L (Magic ''qiskit_version_table''),
     call L (Magic ''qiskit_copyright'')]"

text \<open>The code cells in order (the last, empty cell of the file holds no statement).\<close>

definition notebook :: "library \<Rightarrow> unit nb list list" where
  "notebook L = [cell1 L, cell2 L, cell3 L, cell4 L, cell5 L, cell6 L, cell7 L]"

definition fresh :: state where
  "fresh =
    \<lparr>H2_op = None, npme = None, result = None, ref_value = None, seed = None,
     var_form = None, spsa = None, backend = None, qi = None, vqe = None,
     result_vqe = None, vqe_state = None, iqpe = None, result_iqpe = None,
     trace = [], next_addr = 0\<rparr>"

definition run_all :: "library \<Rightarrow> ((nat \<times> exn) + unit) \<times> state" where
  "run_all L = run_cells 1 (notebook L) fresh"

section \<open>Notions used to state the properties\<close>

subsection \<open>The operator as a linear combination\<close>

fun pauli_string_matrix :: "pauli list \<Rightarrow> matrix" where
  "pauli_string_matrix [] = [[1]]"
| "pauli_string_matrix (p # ps) = kron (pauli_matrix p) (pauli_string_matrix ps)"

fun combination :: "(real \<times> pauli list) list \<Rightarrow> matrix" where
  "combination [] = []"
| "combination [(c, ps)] = scale c (pauli_string_matrix ps)"
| "combination ((c, ps) # t # ts) = madd (scale c (pauli_string_matrix ps)) (combination (t # ts))"

subsection \<open>The least eigenvalue in closed form\<close>

text \<open>
  The matrix of the operator couples the first basis state with the last and the second
  with the third. The least eigenvalue is the lower root of the characteristic
  polynomial of the inner block.
\<close>

definition block_matrix :: "real \<Rightarrow> real \<Rightarrow> real \<Rightarrow> real \<Rightarrow> matrix" where
  "block_matrix a d1 d2 c = [[a, 0, 0, c], [0, d1, c, 0], [0, c, d2, 0], [c, 0, 0, a]]"

definition lower_root :: "real \<Rightarrow> real \<Rightarrow> real \<Rightarrow> real" where
  "lower_root d1 d2 c = (d1 + d2) / 2 - sqrt (((d2 - d1) / 2)\<^sup>2 + c\<^sup>2)"

definition H2_ground_energy :: real where
  "H2_ground_energy =
     lower_root
       (-1.052373245772859 - 0.39793742484318045 - 0.39793742484318045 + 0.01128010425623538)
       (-1.052373245772859 + 0.39793742484318045 + 0.39793742484318045 + 0.01128010425623538)
       0.18093119978423156"

text \<open>
  The contract of the exact solver, for the operator \<open>H\<close> and the tolerance \<open>eps\<close>:
  whenever it is asked for the minimum eigenvalue of \<open>H\<close>, the real part of what it
  returns lies within \<open>eps\<close> of the least eigenvalue of the matrix of \<open>H\<close>. The solver
  computes in double precision, so what it returns is a binary fraction close to the
  least eigenvalue, not that number itself.
\<close>

definition npme_accurate_on :: "library \<Rightarrow> op \<Rightarrow> real \<Rightarrow> bool" where
  "npme_accurate_on L H eps \<longleftrightarrow>
     (\<forall>h n a. \<exists>lam. is_min_eigenvalue (to_matrix H) lam \<and>
        \<bar>Re (eigenvalue (returns L h (NPME_compute_minimum_eigenvalue n (Ref a H)))) - lam\<bar>
          \<le> eps)"

subsection \<open>Two libraries to run the notebook against\<close>

text \<open>
  A library that never raises: its exact solver returns the least eigenvalue, the other
  two solvers the energies printed in the notebook's stored output.
\<close>

definition sample_reference :: MinimumEigensolverResult where
  "sample_reference = \<lparr>eigenvalue = Complex H2_ground_energy 0, optimal_parameters = []\<rparr>"

definition sample_vqe :: MinimumEigensolverResult where
  "sample_vqe = \<lparr>eigenvalue = Complex (-1.74063) 0, optimal_parameters = [0.5, -0.25]\<rparr>"

definition sample_iqpe :: MinimumEigensolverResult where
  "sample_iqpe = \<lparr>eigenvalue = Complex (-1.84917) 0, optimal_parameters = []\<rparr>"

fun sample_result :: "event \<Rightarrow> MinimumEigensolverResult" where
  "sample_result (NPME_compute_minimum_eigenvalue n h) = sample_reference"
| "sample_result (VQE_compute_minimum_eigenvalue v h) = sample_vqe"
| "sample_result (IQPE_compute_minimum_eigenvalue i h) = sample_iqpe"
| "sample_result c = \<lparr>eigenvalue = 0, optimal_parameters = []\<rparr>"

definition sample_library :: library where
  "sample_library = \<lparr>raises = (\<lambda>h c. None), returns = (\<lambda>h c. sample_result c)\<rparr>"

text \<open>
  A library whose exact solver returns a double-precision number, a multiple of \<open>2\<close> to
  the power \<open>-52\<close> that lies within \<open>2e-15\<close> of the least eigenvalue.
\<close>

definition double_reference :: MinimumEigensolverResult where
  "double_reference =
     \<lparr>eigenvalue = Complex (- 8364423133943961 / 2 ^ 52) 0, optimal_parameters = []\<rparr>"

fun double_result :: "event \<Rightarrow> MinimumEigensolverResult" where
  "double_result (NPME_compute_minimum_eigenvalue n h) = double_reference"
| "double_result c = sample_result c"

definition double_library :: library where
  "double_library = \<lparr>raises = (\<lambda>h c. None), returns = (\<lambda>h c. double_result c)\<rparr>"

text \<open>A library whose phase-estimation solver raises; everything else succeeds.\<close>

fun iqpe_raises :: "event \<Rightarrow> exn option" where
  "iqpe_raises (IQPE_compute_minimum_eigenvalue i h) = Some (LibraryError ''AquaError'')"
| "iqpe_raises c = None"

definition failing_library :: library where
  "failing_library = \<lparr>raises = (\<lambda>h c. iqpe_raises c), returns = (\<lambda>h c. sample_result c)\<rparr>"

subsection \<open>The states of a run in which nothing raises\<close>

text \<open>
  The objects built by the constructor calls of cells 4 to 6, at the addresses they
  receive in a run from the fresh kernel, and the state after each cell. \<open>r1\<close>, \<open>r2\<close>
  and \<open>r3\<close> are what the exact, the variational and the phase-estimation solver return.
\<close>

definition var_form_obj :: "TwoLocal ref" where
  "var_form_obj =
     Ref 3 \<lparr>rotation_blocks = [''ry'', ''rz''], entanglement_blocks = ''cz'', reps = 3\<rparr>"

definition spsa_obj :: "SPSA ref" where
  "spsa_obj = Ref 4 \<lparr>maxiter = 10\<rparr>"

definition backend_obj :: "string ref" where
  "backend_obj = Ref 5 ''qasm_simulator''"

definition qi_vqe :: "QuantumInstance ref" where
  "qi_vqe = Ref 6 \<lparr>qi_backend = backend_obj, shots = None, seed_simulator = Some 5,
                   seed_transpiler = Some 5\<rparr>"

definition vqe_obj :: "VQE ref" where
  "vqe_obj = Ref 7 \<lparr>vqe_var_form = var_form_obj, vqe_optimizer = spsa_obj,
                    vqe_quantum_instance = qi_vqe\<rparr>"

definition vqe_state_obj :: "MinimumEigensolverResult \<Rightarrow> VarFormBased ref" where
  "vqe_state_obj r2 =
     Ref 9 \<lparr>vfb_var_form = var_form_obj, vfb_params = optimal_parameters r2\<rparr>"

definition qi_iqpe :: "QuantumInstance ref" where
  "qi_iqpe = Ref 10 \<lparr>qi_backend = backend_obj, shots = Some 100, seed_simulator = Some 5,
                     seed_transpiler = Some 5\<rparr>"

definition iqpe_obj :: "MinimumEigensolverResult \<Rightarrow> IQPE ref" where
  "iqpe_obj r2 =
     Ref 11 \<lparr>state_in = vqe_state_obj r2, num_time_slices = 1, num_iterations = 6,
             expansion_mode = ''suzuki'', expansion_order = 2,
             iqpe_quantum_instance = qi_iqpe\<rparr>"

definition st1 :: state where
  "st1 = fresh\<lparr>trace := map Import imported_modules\<rparr>"

definition st2 :: state where
  "st2 = st1\<lparr>H2_op := Some (Ref 0 H2_op_rhs),
            trace := trace st1 @ [Operator_expression H2_op_rhs], next_addr := 1\<rparr>"

definition st3 :: "MinimumEigensolverResult \<Rightarrow> state" where
  "st3 r1 = st2\<lparr>npme := Some (Ref 1 ()), result := Some (Ref 2 r1),
     ref_value := Some (Re (eigenvalue r1)),
     trace := trace st2 @
       [New_NumPyMinimumEigensolver (),
        NPME_compute_minimum_eigenvalue (Ref 1 ()) (Ref 0 H2_op_rhs),
        Getattr (Ref 2 r1) ''eigenvalue'',
        Print [Text ''Reference value: '', Float5 (Re (eigenvalue r1))]],
     next_addr := 3\<rparr>"

definition st4 :: "MinimumEigensolverResult \<Rightarrow> MinimumEigensolverResult \<Rightarrow> state" where
  "st4 r1 r2 = (st3 r1)\<lparr>seed := Some 5, var_form := Some var_form_obj, spsa := Some spsa_obj,
     backend := Some backend_obj, qi := Some qi_vqe, vqe := Some vqe_obj,
     result_vqe := Some (Ref 8 r2),
     trace := trace (st3 r1) @
       [Set_random_seed 5, New_TwoLocal (obj var_form_obj), New_SPSA (obj spsa_obj),
        Get_backend (obj backend_obj), New_QuantumInstance (obj qi_vqe), New_VQE (obj vqe_obj),
        VQE_compute_minimum_eigenvalue vqe_obj (Ref 0 H2_op_rhs),
        Getattr (Ref 8 r2) ''eigenvalue'',
        Print [Text ''VQE estimated the ground energy to be '', Float5 (Re (eigenvalue r2))],
        Getattr (Ref 8 r2) ''eigenvalue'',
        Print [Text ''Delta from reference energy value is '',
               Float5 (Re (eigenvalue r2) - Re (eigenvalue r1))]],
     next_addr := 9\<rparr>"

definition st5 :: "MinimumEigensolverResult \<Rightarrow> MinimumEigensolverResult \<Rightarrow> state" where
  "st5 r1 r2 = (st4 r1 r2)\<lparr>vqe_state := Some (vqe_state_obj r2),
     trace := trace (st4 r1 r2) @
       [Getattr (Ref 8 r2) ''optimal_parameters'', New_VarFormBased (obj (vqe_state_obj r2))],
     next_addr := 10\<rparr>"

definition st6 ::
  "MinimumEigensolverResult \<Rightarrow> MinimumEigensolverResult \<Rightarrow> MinimumEigensolverResult \<Rightarrow> state" where
  "st6 r1 r2 r3 = (st5 r1 r2)\<lparr>qi := Some qi_iqpe, iqpe := Some (iqpe_obj r2),
     result_iqpe := Some (Ref 12 r3), result_vqe := Some (Ref 12 r3),
     trace := trace (st5 r1 r2) @
       [New_QuantumInstance (obj qi_iqpe), New_IQPE (obj (iqpe_obj r2)),
        IQPE_compute_minimum_eigenvalue (iqpe_obj r2) (Ref 0 H2_op_rhs),
        Getattr (Ref 12 r3) ''eigenvalue'',
        Print [Text ''Continuing with VQE's result, IQPE estimated the ground energy to be '',
               Float5 (Re (eigenvalue r3))],
        Getattr (Ref 12 r3) ''eigenvalue'',
        Print [Text ''Delta from reference energy value is '',
               Float5 (Re (eigenvalue r3) - Re (eigenvalue r1))]],
     next_addr := 13\<rparr>"

definition st7 ::
  "MinimumEigensolverResult \<Rightarrow> MinimumEigensolverResult \<Rightarrow> MinimumEigensolverResult \<Rightarrow> state" where
  "st7 r1 r2 r3 = (st6 r1 r2 r3)\<lparr>trace := trace (st6 r1 r2 r3) @
       [Import ''qiskit.tools.jupyter'', Magic ''qiskit_version_table'',
        Magic ''qiskit_copyright'']\<rparr>"

text \<open>
  The requests made before each of the three solver calls of such a run.
\<close>

definition hist1 :: "event list" where
  "hist1 = trace st2 @ [New_NumPyMinimumEigensolver ()]"

definition hist2 :: "MinimumEigensolverResult \<Rightarrow> event list" where
  "hist2 r1 =
     trace (st3 r1) @
       [Set_random_seed 5, New_TwoLocal (obj var_form_obj), New_SPSA (obj spsa_obj),
        Get_backend (obj backend_obj), New_QuantumInstance (obj qi_vqe), New_VQE (obj vqe_obj)]"

definition hist3 :: "MinimumEigensolverResult \<Rightarrow> MinimumEigensolverResult \<Rightarrow> event list" where
  "hist3 r1 r2 =
     trace (st5 r1 r2) @ [New_QuantumInstance (obj qi_iqpe), New_IQPE (obj (iqpe_obj r2))]"


subsection \<open>Exceptions\<close>

text \<open>
  Replaying a list of requests after the history \<open>h\<close>: the position (in the whole
  history) and the exception of the first request that raises, if any does.
\<close>

fun first_raise :: "library \<Rightarrow> event list \<Rightarrow> event list \<Rightarrow> (nat \<times> exn) option" where
  "first_raise L h [] = None"
| "first_raise L h (c # cs) =
     (case raises L h c of Some e \<Rightarrow> Some (length h, e) | None \<Rightarrow> first_raise L (h @ [c]) cs)"

text \<open>
  The number of requests each cell makes when nothing raises, and the cell to which the
  request at position \<open>k\<close> of the run belongs.
\<close>

definition requests_per_cell :: "nat list" where
  "requests_per_cell = [8, 1, 4, 11, 2, 7, 3]"

fun cell_of :: "nat list \<Rightarrow> nat \<Rightarrow> nat \<Rightarrow> nat" where
  "cell_of [] n k = n"
| "cell_of (m # ms) n k = (if k < m then n else cell_of ms (Suc n) (k - m))"

definition cell_of_request :: "nat \<Rightarrow> nat" where
  "cell_of_request k = cell_of requests_per_cell 1 k"

text \<open>
  A piece of the run from \<open>s\<close> to \<open>s'\<close> with outcome \<open>out\<close> is faithful when it only adds
  requests, at most \<open>n\<close> of them, and either all \<open>n\<close> were made and none raised, or the
  last one made is the first that raised and \<open>out\<close> is its exception.
\<close>

definition faithful :: "library \<Rightarrow> state \<Rightarrow> exn + unit \<Rightarrow> state \<Rightarrow> nat \<Rightarrow> bool" where
  "faithful L s out s' n \<longleftrightarrow>
     (\<exists>evs. trace s' = trace s @ evs \<and>
        (case out of
           Inr _ \<Rightarrow> length evs = n \<and> first_raise L (trace s) evs = None
         | Inl e \<Rightarrow> evs \<noteq> [] \<and> length evs \<le> n \<and>
                    first_raise L (trace s) evs = Some (length (trace s') - 1, e)))"

definition reported :: "library \<Rightarrow> ((nat \<times> exn) + unit) \<times> state \<Rightarrow> bool" where
  "reported L r \<longleftrightarrow>
     (case r of
        (Inr _, s) \<Rightarrow> first_raise L [] (trace s) = None \<and> length (trace s) = 36
      | (Inl (n, e), s) \<Rightarrow>
          first_raise L [] (trace s) = Some (length (trace s) - 1, e) \<and>
          n = cell_of_request (length (trace s) - 1))"

text \<open>The names a cell needs to find bound.\<close>

definition ready3 :: "state \<Rightarrow> bool" where
  "ready3 s \<longleftrightarrow> H2_op s \<noteq> None"

definition ready4 :: "state \<Rightarrow> bool" where
  "ready4 s \<longleftrightarrow> H2_op s \<noteq> None \<and> ref_value s \<noteq> None"

definition ready5 :: "state \<Rightarrow> bool" where
  "ready5 s \<longleftrightarrow>
     ready4 s \<and> var_form s \<noteq> None \<and> result_vqe s \<noteq> None \<and> backend s \<noteq> None \<and> seed s \<noteq> None"

definition ready6 :: "state \<Rightarrow> bool" where
  "ready6 s \<longleftrightarrow> ready5 s \<and> vqe_state s \<noteq> None"

subsection \<open>The pipeline\<close>

text \<open>
  The steps of the pipeline, and the step (if any) that a request performs. The
  variational step carries the iteration cap of its optimizer. A line is a delta against
  the reference when it is the f-string that begins with the text of lines 111 and 159.
\<close>

datatype step =
    Construct_operator
  | Exact_solve
  | Variational_solve nat
  | Extract_parameters
  | Wrap_initial_state
  | Phase_estimation
  | Print_delta

fun step_of :: "event \<Rightarrow> step option" where
  "step_of (Operator_expression a) = Some Construct_operator"
| "step_of (NPME_compute_minimum_eigenvalue n h) = Some Exact_solve"
| "step_of (VQE_compute_minimum_eigenvalue v h) =
     Some (Variational_solve (maxiter (obj (vqe_optimizer (obj v)))))"
| "step_of (Getattr r a) = (if a = ''optimal_parameters'' then Some Extract_parameters else None)"
| "step_of (New_VarFormBased v) = Some Wrap_initial_state"
| "step_of (IQPE_compute_minimum_eigenvalue i h) = Some Phase_estimation"
| "step_of (Print fs) =
     (case fs of
        Text t # rest \<Rightarrow>
          if t = ''Delta from reference energy value is '' then Some Print_delta else None
      | _ \<Rightarrow> None)"
| "step_of c = None"

definition pipeline :: "event list \<Rightarrow> step list" where
  "pipeline tr = List.map_filter step_of tr"

text \<open>
  What the library returned to the solver calls of a trace, in order: replaying the
  requests \<open>cs\<close> after the history \<open>h\<close>, each solver call is answered from the history
  that precedes it.
\<close>

fun is_solver_call :: "event \<Rightarrow> bool" where
  "is_solver_call (NPME_compute_minimum_eigenvalue n h) = True"
| "is_solver_call (VQE_compute_minimum_eigenvalue v h) = True"
| "is_solver_call (IQPE_compute_minimum_eigenvalue i h) = True"
| "is_solver_call c = False"

fun solver_returns :: "library \<Rightarrow> event list \<Rightarrow> event list \<Rightarrow> MinimumEigensolverResult list" where
  "solver_returns L h [] = []"
| "solver_returns L h (c # cs) =
     (if is_solver_call c then returns L h c # solver_returns L (h @ [c]) cs
      else solver_returns L (h @ [c]) cs)"

text \<open>The seven steps in the order in which the specification lists them.\<close>

definition spec_pipeline :: "step list" where
  "spec_pipeline =
    [Construct_operator, Exact_solve, Variational_solve 10, Extract_parameters,
     Wrap_initial_state, Phase_estimation, Print_delta]"

subsection \<open>The seed, the solver runs and the names\<close>









subsection \<open>The quantum instances the solvers run on\<close>

fun solver_instance :: "event \<Rightarrow> (string \<times> QuantumInstance ref) option" where
  "solver_instance (VQE_compute_minimum_eigenvalue v h) =
     Some (''VQE'', vqe_quantum_instance (obj v))"
| "solver_instance (IQPE_compute_minimum_eigenvalue i h) =
     Some (''IQPE'', iqpe_quantum_instance (obj i))"
| "solver_instance c = None"

section \<open>Properties of the operator\<close>

lemma H2_op_matrix:
  "to_matrix H2_op_rhs =
    [[-1.052373245772859 + 0.39793742484318045 - 0.39793742484318045 - 0.01128010425623538, 0, 0, 0.18093119978423156],
     [0, -1.052373245772859 - 0.39793742484318045 - 0.39793742484318045 + 0.01128010425623538, 0.18093119978423156, 0],
     [0, 0.18093119978423156, -1.052373245772859 + 0.39793742484318045 + 0.39793742484318045 + 0.01128010425623538, 0],
     [0.18093119978423156, 0, 0, -1.052373245772859 - 0.39793742484318045 + 0.39793742484318045 - 0.01128010425623538]]"
  by (simp add: H2_op_rhs_def scale_def kron_def madd_def)


section \<open>The least eigenvalue of the operator\<close>

lemma four_entries: "length (w::real list) = 4 \<Longrightarrow> \<exists>w0 w1 w2 w3. w = [w0, w1, w2, w3]"
  by (cases w; simp; rename_tac a l; case_tac l; simp; rename_tac b m; case_tac m; simp;
      rename_tac c n; case_tac n; simp)

lemma eigenpair_block:
  "is_eigenpair (block_matrix a d1 d2 c) mu w \<longleftrightarrow>
     (\<exists>w0 w1 w2 w3. w = [w0, w1, w2, w3] \<and> (w0 \<noteq> 0 \<or> w1 \<noteq> 0 \<or> w2 \<noteq> 0 \<or> w3 \<noteq> 0) \<and>
        a * w0 + c * w3 = mu * w0 \<and> d1 * w1 + c * w2 = mu * w1 \<and>
        c * w1 + d2 * w2 = mu * w2 \<and> c * w0 + a * w3 = mu * w3)"
  (is "?lhs \<longleftrightarrow> ?rhs")
proof
  assume h: ?lhs
  then have "length w = 4" by (simp add: is_eigenpair_def block_matrix_def)
  then obtain w0 w1 w2 w3 where w: "w = [w0, w1, w2, w3]" using four_entries by blast
  with h show ?rhs
    by (auto simp add: is_eigenpair_def block_matrix_def mat_vec_def)
next
  assume ?rhs
  then show ?lhs
    by (auto simp add: is_eigenpair_def block_matrix_def mat_vec_def)
qed

lemma lower_root_quadratic:
  "(lower_root d1 d2 c - d1) * (lower_root d1 d2 c - d2) = c\<^sup>2"
proof -
  define D where "D = (d2 - d1) / 2"
  define T where "T = sqrt (D\<^sup>2 + c\<^sup>2)"
  have TT: "T * T = D\<^sup>2 + c\<^sup>2" by (simp add: T_def)
  have l1: "lower_root d1 d2 c - d1 = D - T"
    by (simp add: lower_root_def T_def D_def field_simps)
  have l2: "lower_root d1 d2 c - d2 = - D - T"
    by (simp add: lower_root_def T_def D_def field_simps)
  have "(D - T) * (- D - T) = T * T - D\<^sup>2"
    by (simp add: power2_eq_square algebra_simps)
  with TT show ?thesis unfolding l1 l2 by simp
qed

lemma root_lower_bound:
  assumes "(mu - d1) * (mu - d2) = c\<^sup>2"
  shows "lower_root d1 d2 c \<le> mu"
proof -
  define S where "S = ((d2 - d1) / 2)\<^sup>2 + c\<^sup>2"
  have "(mu - (d1 + d2) / 2)\<^sup>2 = S"
    using assms by (simp add: S_def power2_eq_square field_simps)
  then have "\<bar>mu - (d1 + d2) / 2\<bar> = sqrt S" by (metis real_sqrt_abs)
  then have "- sqrt S \<le> mu - (d1 + d2) / 2" by linarith
  then show ?thesis by (simp add: lower_root_def S_def)
qed

lemma block_eigen_lower:
  assumes e: "is_eigenpair (block_matrix a d1 d2 c) mu w"
    and c: "c \<noteq> 0" and low: "lower_root d1 d2 c \<le> a - \<bar>c\<bar>"
  shows "lower_root d1 d2 c \<le> mu"
proof -
  from e obtain w0 w1 w2 w3 where w: "w = [w0, w1, w2, w3]"
    and nz: "w0 \<noteq> 0 \<or> w1 \<noteq> 0 \<or> w2 \<noteq> 0 \<or> w3 \<noteq> 0"
    and e0: "a * w0 + c * w3 = mu * w0" and e1: "d1 * w1 + c * w2 = mu * w1"
    and e2: "c * w1 + d2 * w2 = mu * w2" and e3: "c * w0 + a * w3 = mu * w3"
    unfolding eigenpair_block by blast
  show ?thesis
  proof (cases "w1 \<noteq> 0 \<or> w2 \<noteq> 0")
    case True
    have i1: "(mu - d1) * w1 = c * w2" using e1 by (simp add: algebra_simps)
    have i2: "(mu - d2) * w2 = c * w1" using e2 by (simp add: algebra_simps)
    have w1: "w1 \<noteq> 0"
    proof
      assume "w1 = 0"
      with i1 c have "w2 = 0" by simp
      with \<open>w1 = 0\<close> True show False by simp
    qed
    have "(mu - d2) * ((mu - d1) * w1) = (mu - d2) * (c * w2)"
      using i1 by simp
    also have "\<dots> = c * ((mu - d2) * w2)" by simp
    also have "\<dots> = c * (c * w1)" using i2 by simp
    finally have "(mu - d1) * (mu - d2) * w1 = c\<^sup>2 * w1"
      by (simp add: power2_eq_square mult.commute mult.left_commute)
    with w1 have "(mu - d1) * (mu - d2) = c\<^sup>2" by simp
    then show ?thesis by (rule root_lower_bound)
  next
    case False
    with nz have nz': "w0 \<noteq> 0 \<or> w3 \<noteq> 0" by blast
    have i0: "(mu - a) * w0 = c * w3" using e0 by (simp add: algebra_simps)
    have i3: "(mu - a) * w3 = c * w0" using e3 by (simp add: algebra_simps)
    have w0: "w0 \<noteq> 0"
    proof
      assume "w0 = 0"
      with i0 c have "w3 = 0" by simp
      with \<open>w0 = 0\<close> nz' show False by simp
    qed
    have "(mu - a) * ((mu - a) * w0) = (mu - a) * (c * w3)"
      using i0 by simp
    also have "\<dots> = c * ((mu - a) * w3)" by simp
    also have "\<dots> = c * (c * w0)" using i3 by simp
    finally have "(mu - a)\<^sup>2 * w0 = c\<^sup>2 * w0" by (simp add: power2_eq_square)
    with w0 have "(mu - a)\<^sup>2 = c\<^sup>2" by simp
    then have "mu - a = c \<or> mu - a = - c" by (simp add: power2_eq_iff)
    then have "a - \<bar>c\<bar> \<le> mu" by linarith
    with low show ?thesis by linarith
  qed
qed

lemma block_eigen_exists:
  assumes c: "c \<noteq> 0"
  shows "is_eigenpair (block_matrix a d1 d2 c) (lower_root d1 d2 c)
           [0, c, lower_root d1 d2 c - d1, 0]"
proof -
  let ?l = "lower_root d1 d2 c"
  have q: "(?l - d1) * (?l - d2) = c * c"
    using lower_root_quadratic[of d1 d2 c] by (simp add: power2_eq_square)
  have "c * c + d2 * (?l - d1) = ?l * (?l - d1)"
    using q by (simp add: algebra_simps)
  then have "c * c + d2 * (?l - d1) = ?l * (?l - d1) \<and> d1 * c + c * (?l - d1) = ?l * c"
    by (simp add: algebra_simps)
  with c show ?thesis
    unfolding eigenpair_block by simp
qed

section \<open>Running the cells\<close>

lemmas nb_defs = ret_def and_then_def name_def assign_def call_def new_def construct_def
  solve_def getattr_eigenvalue_def getattr_optimal_parameters_def print_def

lemmas obj_defs = var_form_obj_def spsa_obj_def backend_obj_def qi_vqe_def vqe_obj_def
  vqe_state_obj_def qi_iqpe_def iqpe_obj_def

lemmas st_defs = st1_def st2_def st3_def st4_def st5_def st6_def st7_def fresh_def

subsection \<open>When nothing raises\<close>

lemma exec_Cons_ok:
  "exec (st # sts) s = (Inr (), s') \<longleftrightarrow>
     (\<exists>s1. st s = (Inr (), s1) \<and> exec sts s1 = (Inr (), s'))"
  by (auto split: prod.splits sum.splits)

lemma call_ok:
  "call L c s = (Inr (), s1) \<longleftrightarrow> raises L (trace s) c = None \<and> s1 = s\<lparr>trace := trace s @ [c]\<rparr>"
  by (auto simp add: call_def split: option.splits)

lemma exec_imports:
  "exec (map (\<lambda>m. call L (Import m)) ms) s = (Inr (), s') \<Longrightarrow>
     s' = s\<lparr>trace := trace s @ map Import ms\<rparr>"
proof (induction ms arbitrary: s)
  case Nil
  then show ?case by simp
next
  case (Cons m ms)
  from Cons.prems
  have "exec (map (\<lambda>m. call L (Import m)) ms) (s\<lparr>trace := trace s @ [Import m]\<rparr>) = (Inr (), s')"
    by (simp only: list.map exec_Cons_ok call_ok) blast
  from Cons.IH[OF this] show ?case by simp
qed

lemma step1: "exec (cell1 L) fresh = (Inr (), s') \<Longrightarrow> s' = st1"
  unfolding cell1_def by (drule exec_imports) (simp add: st1_def fresh_def)

lemma step2: "exec (cell2 L) st1 = (Inr (), s') \<Longrightarrow> s' = st2"
  by (auto simp add: cell2_def nb_defs st_defs split: option.splits)

lemma step3:
  "exec (cell3 L) st2 = (Inr (), s') \<Longrightarrow>
   \<exists>h. s' = st3 (returns L h (NPME_compute_minimum_eigenvalue (Ref 1 ()) (Ref 0 H2_op_rhs)))"
  by (auto simp add: cell3_def nb_defs st_defs split: option.splits)

lemma step4:
  "exec (cell4 L) (st3 r1) = (Inr (), s') \<Longrightarrow>
   \<exists>h. s' = st4 r1 (returns L h (VQE_compute_minimum_eigenvalue vqe_obj (Ref 0 H2_op_rhs)))"
  by (auto simp add: cell4_def nb_defs st_defs obj_defs split: option.splits)

lemma step5: "exec (cell5 L) (st4 r1 r2) = (Inr (), s') \<Longrightarrow> s' = st5 r1 r2"
  by (auto simp add: cell5_def nb_defs st_defs obj_defs split: option.splits)

lemma step6:
  "exec (cell6 L) (st5 r1 r2) = (Inr (), s') \<Longrightarrow>
   \<exists>h. s' = st6 r1 r2
     (returns L h (IQPE_compute_minimum_eigenvalue (iqpe_obj r2) (Ref 0 H2_op_rhs)))"
  by (auto simp add: cell6_def nb_defs st_defs obj_defs split: option.splits)

lemma step7: "exec (cell7 L) (st6 r1 r2 r3) = (Inr (), s') \<Longrightarrow> s' = st7 r1 r2 r3"
  by (auto simp add: cell7_def nb_defs st_defs obj_defs split: option.splits)

text \<open>What a solver returned is the library's answer after the requests made before the call.\<close>

lemma solve3_hist:
  "exec (cell3 L) st2 = (Inr (), st3 r1) \<Longrightarrow>
     r1 = returns L hist1 (NPME_compute_minimum_eigenvalue (Ref 1 ()) (Ref 0 H2_op_rhs))"
  by (auto simp add: cell3_def nb_defs st_defs hist1_def split: option.splits)

lemma solve4_hist:
  "exec (cell4 L) (st3 r1) = (Inr (), st4 r1 r2) \<Longrightarrow>
     r2 = returns L (hist2 r1) (VQE_compute_minimum_eigenvalue vqe_obj (Ref 0 H2_op_rhs))"
  by (auto simp add: cell4_def nb_defs st_defs obj_defs hist2_def split: option.splits)

lemma solve6_hist:
  "exec (cell6 L) (st5 r1 r2) = (Inr (), st6 r1 r2 r3) \<Longrightarrow>
     r3 = returns L (hist3 r1 r2)
            (IQPE_compute_minimum_eigenvalue (iqpe_obj r2) (Ref 0 H2_op_rhs))"
  by (auto simp add: cell6_def nb_defs st_defs obj_defs hist3_def split: option.splits)

subsection \<open>When a request may raise\<close>

lemma first_raise_append:
  "first_raise L h (xs @ ys) =
     (case first_raise L h xs of Some x \<Rightarrow> Some x | None \<Rightarrow> first_raise L (h @ xs) ys)"
  by (induction xs arbitrary: h) (auto split: option.splits)

lemma imports_outcome:
  "exec (map (\<lambda>m. call L (Import m)) ms) s = (out, s') \<Longrightarrow> faithful L s out s' (length ms)"
proof (induction ms arbitrary: s)
  case Nil
  then show ?case by (auto simp add: faithful_def)
next
  case (Cons m ms)
  show ?case
  proof (cases "raises L (trace s) (Import m)")
    case (Some e)
    then have "call L (Import m) s = (Inl e, s\<lparr>trace := trace s @ [Import m]\<rparr>)"
      by (simp add: call_def)
    with Cons.prems Some show ?thesis
      by (auto simp add: faithful_def)
  next
    case None
    let ?s1 = "s\<lparr>trace := trace s @ [Import m]\<rparr>"
    have c1: "call L (Import m) s = (Inr (), ?s1)"
      using None by (simp add: call_def)
    from Cons.prems c1 have "exec (map (\<lambda>m. call L (Import m)) ms) ?s1 = (out, s')"
      by simp
    from Cons.IH[OF this] obtain evs where t: "trace s' = trace ?s1 @ evs"
      and c: "(case out of
           Inr _ \<Rightarrow> length evs = length ms \<and> first_raise L (trace ?s1) evs = None
         | Inl e \<Rightarrow> evs \<noteq> [] \<and> length evs \<le> length ms \<and>
                    first_raise L (trace ?s1) evs = Some (length (trace s') - 1, e))"
      unfolding faithful_def by blast
    have "trace s' = trace s @ (Import m # evs)" using t by simp
    moreover have "(case out of
           Inr _ \<Rightarrow> length (Import m # evs) = length (m # ms) \<and>
                    first_raise L (trace s) (Import m # evs) = None
         | Inl e \<Rightarrow> Import m # evs \<noteq> [] \<and> length (Import m # evs) \<le> length (m # ms) \<and>
                    first_raise L (trace s) (Import m # evs) = Some (length (trace s') - 1, e))"
      using c None by (auto split: sum.splits)
    ultimately show ?thesis unfolding faithful_def by blast
  qed
qed

lemma length_imported_modules: "length imported_modules = 8"
  by (simp add: imported_modules_def)

lemma cell1_outcome: "exec (cell1 L) s = (out, s') \<Longrightarrow> faithful L s out s' 8"
  unfolding cell1_def by (drule imports_outcome) (simp only: length_imported_modules)

lemma cell2_outcome:
  "exec (cell2 L) s = (out, s') \<Longrightarrow> faithful L s out s' 1 \<and> (out = Inr () \<longrightarrow> ready3 s')"
  by (auto simp add: cell2_def nb_defs faithful_def ready3_def split: option.splits)

lemma cell3_outcome:
  "ready3 s \<Longrightarrow> exec (cell3 L) s = (out, s') \<Longrightarrow>
     faithful L s out s' 4 \<and> (out = Inr () \<longrightarrow> ready4 s')"
  by (auto simp add: cell3_def nb_defs faithful_def ready3_def ready4_def split: option.splits)

lemma cell4_outcome:
  "ready4 s \<Longrightarrow> exec (cell4 L) s = (out, s') \<Longrightarrow>
     faithful L s out s' 11 \<and> (out = Inr () \<longrightarrow> ready5 s')"
  by (auto simp add: cell4_def nb_defs faithful_def ready4_def ready5_def split: option.splits)

lemma cell5_outcome:
  "ready5 s \<Longrightarrow> exec (cell5 L) s = (out, s') \<Longrightarrow>
     faithful L s out s' 2 \<and> (out = Inr () \<longrightarrow> ready6 s')"
  by (auto simp add: cell5_def nb_defs faithful_def ready4_def ready5_def ready6_def
      split: option.splits)

lemma cell6_outcome:
  "ready6 s \<Longrightarrow> exec (cell6 L) s = (out, s') \<Longrightarrow> faithful L s out s' 7"
  by (auto simp add: cell6_def nb_defs faithful_def ready4_def ready5_def ready6_def
      split: option.splits)

lemma cell7_outcome:
  "exec (cell7 L) s = (out, s') \<Longrightarrow> faithful L s out s' 3"
  by (auto simp add: cell7_def nb_defs faithful_def split: option.splits)

lemma cell_step:
  assumes clean: "first_raise L [] (trace s) = None" and len: "length (trace s) = N"
    and x: "exec c s = (o1, s1)"
    and f: "faithful L s o1 s1 m"
    and cell: "\<And>k. N \<le> k \<Longrightarrow> k < N + m \<Longrightarrow> cell_of_request k = n"
    and rest: "\<And>u. o1 = Inr u \<Longrightarrow> first_raise L [] (trace s1) = None \<Longrightarrow>
                 length (trace s1) = N + m \<Longrightarrow> reported L (run_cells (Suc n) cs s1)"
  shows "reported L (run_cells n (c # cs) s)"
proof -
  from f obtain evs where t: "trace s1 = trace s @ evs"
    and c: "(case o1 of
           Inr _ \<Rightarrow> length evs = m \<and> first_raise L (trace s) evs = None
         | Inl e \<Rightarrow> evs \<noteq> [] \<and> length evs \<le> m \<and>
                    first_raise L (trace s) evs = Some (length (trace s1) - 1, e))"
    unfolding faithful_def by blast
  have fr: "first_raise L [] (trace s1) = first_raise L (trace s) evs"
    using clean by (simp add: t first_raise_append)
  show ?thesis
  proof (cases o1)
    case (Inl e)
    with c have ne: "evs \<noteq> []" and le: "length evs \<le> m"
      and r: "first_raise L (trace s) evs = Some (length (trace s1) - 1, e)" by simp_all
    have "N \<le> length (trace s1) - 1" "length (trace s1) - 1 < N + m"
      using ne le len t by (cases evs; simp)+
    then have "cell_of_request (length (trace s1) - 1) = n" by (rule cell)
    with Inl x r fr show ?thesis by (simp add: reported_def)
  next
    case (Inr u)
    with c have "length evs = m" "first_raise L (trace s) evs = None" by simp_all
    with fr len t have "first_raise L [] (trace s1) = None" "length (trace s1) = N + m"
      by simp_all
    from rest[OF Inr this] Inr x show ?thesis by simp
  qed
qed

lemma cell_ranges:
  "k < 8 \<Longrightarrow> cell_of_request k = 1"
  "8 \<le> k \<Longrightarrow> k < 8 + 1 \<Longrightarrow> cell_of_request k = 2"
  "9 \<le> k \<Longrightarrow> k < 9 + 4 \<Longrightarrow> cell_of_request k = 3"
  "13 \<le> k \<Longrightarrow> k < 13 + 11 \<Longrightarrow> cell_of_request k = 4"
  "24 \<le> k \<Longrightarrow> k < 24 + 2 \<Longrightarrow> cell_of_request k = 5"
  "26 \<le> k \<Longrightarrow> k < 26 + 7 \<Longrightarrow> cell_of_request k = 6"
  "33 \<le> k \<Longrightarrow> k < 33 + 3 \<Longrightarrow> cell_of_request k = 7"
  by (auto simp add: cell_of_request_def requests_per_cell_def)

lemma tail7:
  assumes "first_raise L [] (trace s) = None" "length (trace s) = 33"
  shows "reported L (run_cells 7 [cell7 L] s)"
proof -
  obtain o1 s1 where x: "exec (cell7 L) s = (o1, s1)" by (cases "exec (cell7 L) s")
  show ?thesis
    by (rule cell_step[OF assms x cell7_outcome[OF x]])
       (simp_all add: cell_ranges reported_def del: run_cells.simps(2))
qed

lemma tail6:
  assumes "first_raise L [] (trace s) = None" "length (trace s) = 26" "ready6 s"
  shows "reported L (run_cells 6 [cell6 L, cell7 L] s)"
proof -
  obtain o1 s1 where x: "exec (cell6 L) s = (o1, s1)" by (cases "exec (cell6 L) s")
  show ?thesis
    by (rule cell_step[OF assms(1,2) x cell6_outcome[OF assms(3) x]])
       (simp_all add: cell_ranges tail7 del: run_cells.simps)
qed

lemma tail5:
  assumes "first_raise L [] (trace s) = None" "length (trace s) = 24" "ready5 s"
  shows "reported L (run_cells 5 [cell5 L, cell6 L, cell7 L] s)"
proof -
  obtain o1 s1 where x: "exec (cell5 L) s = (o1, s1)" by (cases "exec (cell5 L) s")
  note o = cell5_outcome[OF assms(3) x]
  show ?thesis
    by (rule cell_step[OF assms(1,2) x conjunct1[OF o]])
       (use o in \<open>simp_all add: cell_ranges tail6 del: run_cells.simps\<close>)
qed

lemma tail4:
  assumes "first_raise L [] (trace s) = None" "length (trace s) = 13" "ready4 s"
  shows "reported L (run_cells 4 [cell4 L, cell5 L, cell6 L, cell7 L] s)"
proof -
  obtain o1 s1 where x: "exec (cell4 L) s = (o1, s1)" by (cases "exec (cell4 L) s")
  note o = cell4_outcome[OF assms(3) x]
  show ?thesis
    by (rule cell_step[OF assms(1,2) x conjunct1[OF o]])
       (use o in \<open>simp_all add: cell_ranges tail5 del: run_cells.simps\<close>)
qed

lemma tail3:
  assumes "first_raise L [] (trace s) = None" "length (trace s) = 9" "ready3 s"
  shows "reported L (run_cells 3 [cell3 L, cell4 L, cell5 L, cell6 L, cell7 L] s)"
proof -
  obtain o1 s1 where x: "exec (cell3 L) s = (o1, s1)" by (cases "exec (cell3 L) s")
  note o = cell3_outcome[OF assms(3) x]
  show ?thesis
    by (rule cell_step[OF assms(1,2) x conjunct1[OF o]])
       (use o in \<open>simp_all add: cell_ranges tail4 del: run_cells.simps\<close>)
qed

lemma tail2:
  assumes "first_raise L [] (trace s) = None" "length (trace s) = 8"
  shows "reported L (run_cells 2 [cell2 L, cell3 L, cell4 L, cell5 L, cell6 L, cell7 L] s)"
proof -
  obtain o1 s1 where x: "exec (cell2 L) s = (o1, s1)" by (cases "exec (cell2 L) s")
  note o = cell2_outcome[OF x]
  show ?thesis
    by (rule cell_step[OF assms(1,2) x conjunct1[OF o]])
       (use o in \<open>simp_all add: cell_ranges tail3 del: run_cells.simps\<close>)
qed

lemma run_all_reported: "reported L (run_all L)"
proof -
  obtain o1 s1 where x: "exec (cell1 L) fresh = (o1, s1)" by (cases "exec (cell1 L) fresh")
  have a: "first_raise L [] (trace fresh) = None" "length (trace fresh) = 0"
    by (simp_all add: fresh_def)
  show ?thesis unfolding run_all_def notebook_def
    by (rule cell_step[OF a x cell1_outcome[OF x]])
       (simp_all add: cell_ranges tail2[unfolded numeral_2_eq_2] del: run_cells.simps)
qed

subsection \<open>Whole runs\<close>

lemmas cell_defs = cell1_def cell2_def cell3_def cell4_def cell5_def cell6_def cell7_def
  imported_modules_def

lemma run_cells_Cons_ok:
  "run_cells n (c # cs) s = (Inr (), s'') \<longleftrightarrow>
     (\<exists>s'. exec c s = (Inr (), s') \<and> run_cells (Suc n) cs s' = (Inr (), s''))"
  by (auto split: prod.splits sum.splits)

lemma run_success:
  assumes "run_all L = (Inr (), s)"
  obtains h1 h2 h3 r1 r2 r3 where
    "r1 = returns L h1 (NPME_compute_minimum_eigenvalue (Ref 1 ()) (Ref 0 H2_op_rhs))"
    "r2 = returns L h2 (VQE_compute_minimum_eigenvalue vqe_obj (Ref 0 H2_op_rhs))"
    "r3 = returns L h3 (IQPE_compute_minimum_eigenvalue (iqpe_obj r2) (Ref 0 H2_op_rhs))"
    "exec (cell1 L) fresh = (Inr (), st1)"
    "exec (cell2 L) st1 = (Inr (), st2)"
    "exec (cell3 L) st2 = (Inr (), st3 r1)"
    "exec (cell4 L) (st3 r1) = (Inr (), st4 r1 r2)"
    "exec (cell5 L) (st4 r1 r2) = (Inr (), st5 r1 r2)"
    "exec (cell6 L) (st5 r1 r2) = (Inr (), st6 r1 r2 r3)"
    "exec (cell7 L) (st6 r1 r2 r3) = (Inr (), st7 r1 r2 r3)"
    "s = st7 r1 r2 r3"
proof -
  from assms obtain s1 s2 s3 s4 s5 s6 where
    e1: "exec (cell1 L) fresh = (Inr (), s1)" and e2: "exec (cell2 L) s1 = (Inr (), s2)"
    and e3: "exec (cell3 L) s2 = (Inr (), s3)" and e4: "exec (cell4 L) s3 = (Inr (), s4)"
    and e5: "exec (cell5 L) s4 = (Inr (), s5)" and e6: "exec (cell6 L) s5 = (Inr (), s6)"
    and e7: "exec (cell7 L) s6 = (Inr (), s)"
    unfolding run_all_def notebook_def run_cells_Cons_ok by auto
  from step1[OF e1] have s1: "s1 = st1" .
  from step2[OF e2[unfolded s1]] have s2: "s2 = st2" .
  from step3[OF e3[unfolded s2]] obtain h1 where
    s3: "s3 = st3 (returns L h1 (NPME_compute_minimum_eigenvalue (Ref 1 ()) (Ref 0 H2_op_rhs)))"
    by blast
  define r1 where "r1 = returns L h1 (NPME_compute_minimum_eigenvalue (Ref 1 ()) (Ref 0 H2_op_rhs))"
  from step4[OF e4[unfolded s3 r1_def[symmetric]]] obtain h2 where
    s4: "s4 = st4 r1 (returns L h2 (VQE_compute_minimum_eigenvalue vqe_obj (Ref 0 H2_op_rhs)))"
    by blast
  define r2 where "r2 = returns L h2 (VQE_compute_minimum_eigenvalue vqe_obj (Ref 0 H2_op_rhs))"
  from step5[OF e5[unfolded s4 r2_def[symmetric]]] have s5: "s5 = st5 r1 r2" .
  from step6[OF e6[unfolded s5]] obtain h3 where
    s6: "s6 = st6 r1 r2 (returns L h3 (IQPE_compute_minimum_eigenvalue (iqpe_obj r2) (Ref 0 H2_op_rhs)))"
    by blast
  define r3 where "r3 = returns L h3 (IQPE_compute_minimum_eigenvalue (iqpe_obj r2) (Ref 0 H2_op_rhs))"
  from step7[OF e7[unfolded s6 r3_def[symmetric]]] have s7: "s = st7 r1 r2 r3" .
  show thesis
    by (rule that[OF r1_def r2_def r3_def])
       (use e1 e2 e3 e4 e5 e6 e7 s1 s2 s3 s4 s5 s6 s7 r1_def r2_def r3_def in simp_all)
qed

lemma prefix3:
  assumes "run_cells 1 (take 3 (notebook L)) fresh = (Inr (), s)"
  shows "\<exists>h. s = st3 (returns L h (NPME_compute_minimum_eigenvalue (Ref 1 ()) (Ref 0 H2_op_rhs)))"
proof -
  from assms obtain s1 s2 where
    e1: "exec (cell1 L) fresh = (Inr (), s1)" and e2: "exec (cell2 L) s1 = (Inr (), s2)"
    and e3: "exec (cell3 L) s2 = (Inr (), s)"
    unfolding notebook_def by (auto simp add: run_cells_Cons_ok simp del: run_cells.simps(2))
  from step1[OF e1] have s1: "s1 = st1" .
  from step2[OF e2[unfolded s1]] have s2: "s2 = st2" .
  from step3[OF e3[unfolded s2]] show ?thesis .
qed

lemma prefix5:
  assumes "run_cells 1 (take 5 (notebook L)) fresh = (Inr (), s)"
  shows "\<exists>h1 h2. s = st5 (returns L h1 (NPME_compute_minimum_eigenvalue (Ref 1 ()) (Ref 0 H2_op_rhs)))
                        (returns L h2 (VQE_compute_minimum_eigenvalue vqe_obj (Ref 0 H2_op_rhs)))"
proof -
  from assms obtain s1 s2 s3 s4 where
    e1: "exec (cell1 L) fresh = (Inr (), s1)" and e2: "exec (cell2 L) s1 = (Inr (), s2)"
    and e3: "exec (cell3 L) s2 = (Inr (), s3)" and e4: "exec (cell4 L) s3 = (Inr (), s4)"
    and e5: "exec (cell5 L) s4 = (Inr (), s)"
    unfolding notebook_def by (auto simp add: run_cells_Cons_ok simp del: run_cells.simps(2))
  from step1[OF e1] have s1: "s1 = st1" .
  from step2[OF e2[unfolded s1]] have s2: "s2 = st2" .
  from step3[OF e3[unfolded s2]] obtain h1 where
    s3: "s3 = st3 (returns L h1 (NPME_compute_minimum_eigenvalue (Ref 1 ()) (Ref 0 H2_op_rhs)))"
    by blast
  from step4[OF e4[unfolded s3]] obtain h2 where
    s4: "s4 = st4 (returns L h1 (NPME_compute_minimum_eigenvalue (Ref 1 ()) (Ref 0 H2_op_rhs)))
                  (returns L h2 (VQE_compute_minimum_eigenvalue vqe_obj (Ref 0 H2_op_rhs)))"
    by blast
  from step5[OF e5[unfolded s4]] show ?thesis by blast
qed

subsection \<open>The two sample libraries\<close>

lemma run_sample: "run_all sample_library = (Inr (), st7 sample_reference sample_vqe sample_iqpe)"
  by (simp add: run_all_def notebook_def cell_defs nb_defs st_defs obj_defs sample_library_def)

lemma sample_prefix3: "run_cells 1 (take 3 (notebook sample_library)) fresh = (Inr (), st3 sample_reference)"
  by (simp add: notebook_def cell_defs nb_defs st_defs obj_defs sample_library_def)

lemma sample_prefix5:
  "run_cells 1 (take 5 (notebook sample_library)) fresh = (Inr (), st5 sample_reference sample_vqe)"
  by (simp add: notebook_def cell_defs nb_defs st_defs obj_defs sample_library_def)

lemma sample_cell6:
  "exec (cell6 sample_library) (st5 sample_reference sample_vqe) =
     (Inr (), st6 sample_reference sample_vqe sample_iqpe)"
  by (simp add: cell_defs nb_defs st_defs obj_defs sample_library_def)

lemma run_failing:
  "fst (run_all failing_library) = Inl (6, LibraryError ''AquaError'')"
  "length (trace (snd (run_all failing_library))) = 29"
  by (simp_all add: run_all_def notebook_def cell_defs nb_defs fresh_def failing_library_def)

subsection \<open>The matrix of the operator and its least eigenvalue\<close>

lemma H2_matrix_block:
  "to_matrix H2_op_rhs =
     block_matrix (-1.06365335002909438) (-1.83696799120298452) (-0.24521829183026272)
       0.18093119978423156"
  by (simp add: H2_op_matrix block_matrix_def)

lemma H2_ground_energy_root:
  "H2_ground_energy =
     lower_root (-1.83696799120298452) (-0.24521829183026272) 0.18093119978423156"
  by (simp add: H2_ground_energy_def)

lemma H2_ground_energy_window:
  "-1.8572750303 < H2_ground_energy" "H2_ground_energy < -1.8572750301"
proof -
  let ?S = "((-0.24521829183026272 - (-1.83696799120298452)) / 2)\<^sup>2 + 0.18093119978423156\<^sup>2 :: real"
  have lo: "0.81618188858337638 < sqrt ?S"
    by (rule real_less_rsqrt) (simp add: power2_eq_square)
  have hi: "sqrt ?S < 0.81618188878337638"
    by (rule real_less_lsqrt) (simp_all add: power2_eq_square)
  have e: "H2_ground_energy = -1.04109314151662362 - sqrt ?S"
    unfolding H2_ground_energy_root lower_root_def by simp
  show "-1.8572750303 < H2_ground_energy" unfolding e using hi by simp
  show "H2_ground_energy < -1.8572750301" unfolding e using lo by simp
qed

lemma H2_min_eigenvalue: "is_min_eigenvalue (to_matrix H2_op_rhs) H2_ground_energy"
proof -
  have low: "lower_root (-1.83696799120298452) (-0.24521829183026272) 0.18093119978423156
               \<le> -1.06365335002909438 - \<bar>0.18093119978423156\<bar>"
    using H2_ground_energy_window(2) unfolding H2_ground_energy_root by simp
  have ex: "\<exists>v. is_eigenpair (to_matrix H2_op_rhs) H2_ground_energy v"
    unfolding H2_matrix_block H2_ground_energy_root
    by (rule exI, rule block_eigen_exists) simp
  have "lower_root (-1.83696799120298452) (-0.24521829183026272) 0.18093119978423156 \<le> mu"
    if "is_eigenpair (to_matrix H2_op_rhs) mu w" for mu w
  proof -
    have c: "(0.18093119978423156::real) \<noteq> 0" by simp
    from block_eigen_lower[OF that[unfolded H2_matrix_block] c low] show ?thesis .
  qed
  with ex show ?thesis
    unfolding is_min_eigenvalue_def H2_ground_energy_root by blast
qed

lemma min_eigenvalue_unique:
  "is_min_eigenvalue A x \<Longrightarrow> is_min_eigenvalue A y \<Longrightarrow> x = y"
  unfolding is_min_eigenvalue_def by (meson order_antisym)

lemma double_accurate: "npme_accurate_on double_library H2_op_rhs (3 / 10 ^ 8)"
proof -
  have "\<bar>- 8364423133943961 / 2 ^ 52 - H2_ground_energy\<bar> \<le> 3 / 10 ^ 8"
    using H2_ground_energy_window unfolding abs_le_iff by auto
  with H2_min_eigenvalue show ?thesis
    unfolding npme_accurate_on_def
    by (auto simp add: double_library_def double_reference_def)
qed

lemma double_prefix3:
  "run_cells 1 (take 3 (notebook double_library)) fresh = (Inr (), st3 double_reference)"
  by (simp add: notebook_def cell_defs nb_defs st_defs obj_defs double_library_def)

subsection \<open>What the trace of a run without exception shows\<close>

lemma returns_st7:
  "solver_returns L [] (trace (st7 r1 r2 r3)) =
     [returns L hist1 (NPME_compute_minimum_eigenvalue (Ref 1 ()) (Ref 0 H2_op_rhs)),
      returns L (hist2 r1) (VQE_compute_minimum_eigenvalue vqe_obj (Ref 0 H2_op_rhs)),
      returns L (hist3 r1 r2)
        (IQPE_compute_minimum_eigenvalue (iqpe_obj r2) (Ref 0 H2_op_rhs))]"
  by (simp add: st_defs obj_defs imported_modules_def hist1_def hist2_def hist3_def)

lemma flow_st7:
  "filter (\<lambda>c. step_of c \<noteq> None) (trace (st7 r1 r2 r3)) =
     [Operator_expression H2_op_rhs,
      NPME_compute_minimum_eigenvalue (Ref 1 ()) (Ref 0 H2_op_rhs),
      VQE_compute_minimum_eigenvalue vqe_obj (Ref 0 H2_op_rhs),
      Print [Text ''Delta from reference energy value is '',
             Float5 (Re (eigenvalue r2) - Re (eigenvalue r1))],
      Getattr (Ref 8 r2) ''optimal_parameters'',
      New_VarFormBased (obj (vqe_state_obj r2)),
      IQPE_compute_minimum_eigenvalue (iqpe_obj r2) (Ref 0 H2_op_rhs),
      Print [Text ''Delta from reference energy value is '',
             Float5 (Re (eigenvalue r3) - Re (eigenvalue r1))]]"
  by (simp add: st_defs obj_defs imported_modules_def)

lemma flow_objects:
  "maxiter (obj (vqe_optimizer (obj vqe_obj))) = 10"
  "vfb_params (obj (vqe_state_obj r2)) = optimal_parameters r2"
  "state_in (obj (iqpe_obj r2)) = Ref 9 (obj (vqe_state_obj r2))"
  "ref_value (st7 r1 r2 r3) = Some (Re (eigenvalue r1))"
  by (simp_all add: st_defs obj_defs)

lemma pipeline_st7:
  "pipeline (trace (st7 r1 r2 r3)) =
     [Construct_operator, Exact_solve, Variational_solve 10, Print_delta, Extract_parameters,
      Wrap_initial_state, Phase_estimation, Print_delta]"
  by (simp add: pipeline_def st_defs obj_defs imported_modules_def)




lemma instances_st7:
  "List.map_filter solver_instance (trace (st7 r1 r2 r3)) =
     [(''VQE'', Ref 6 \<lparr>qi_backend = Ref 5 ''qasm_simulator'', shots = None,
                       seed_simulator = Some 5, seed_transpiler = Some 5\<rparr>),
      (''IQPE'', Ref 10 \<lparr>qi_backend = Ref 5 ''qasm_simulator'', shots = Some 100,
                         seed_simulator = Some 5, seed_transpiler = Some 5\<rparr>)]"
  by (simp add: st_defs obj_defs imported_modules_def)

subsection \<open>The binding of the operator\<close>

lemma imports_keep_H2_op:
  "H2_op (snd (exec (map (\<lambda>m. call L (Import m)) ms) s)) = H2_op s"
proof (induction ms arbitrary: s)
  case Nil
  show ?case by simp
next
  case (Cons m ms)
  show ?case
  proof (cases "raises L (trace s) (Import m)")
    case (Some e)
    then have "call L (Import m) s = (Inl e, s\<lparr>trace := trace s @ [Import m]\<rparr>)"
      by (simp add: call_def)
    then show ?thesis by simp
  next
    case None
    then have "call L (Import m) s = (Inr (), s\<lparr>trace := trace s @ [Import m]\<rparr>)"
      by (simp add: call_def)
    then show ?thesis using Cons.IH[of "s\<lparr>trace := trace s @ [Import m]\<rparr>"] by simp
  qed
qed

lemma cells_keep_H2_op:
  "H2_op (snd (exec (cell1 L) s)) = H2_op s"
  "H2_op (snd (exec (cell3 L) s)) = H2_op s"
  "H2_op (snd (exec (cell4 L) s)) = H2_op s"
  "H2_op (snd (exec (cell5 L) s)) = H2_op s"
  "H2_op (snd (exec (cell6 L) s)) = H2_op s"
  "H2_op (snd (exec (cell7 L) s)) = H2_op s"
       apply (simp add: cell1_def imports_keep_H2_op)
      apply (simp add: cell3_def nb_defs split: option.splits)
     apply (simp add: cell4_def nb_defs split: option.splits)
    apply (simp add: cell5_def nb_defs split: option.splits)
   apply (simp add: cell6_def nb_defs split: option.splits)
  apply (simp add: cell7_def nb_defs split: option.splits)
  done

lemma cell2_binds_H2_op:
  "H2_op (snd (exec (cell2 L) s)) =
     (if raises L (trace s) (Operator_expression H2_op_rhs) = None
      then Some (Ref (next_addr s) H2_op_rhs) else H2_op s)"
  by (simp add: cell2_def nb_defs split: option.splits)

lemma H2_terms:
  "terms H2_op_rhs =
     [(-1.052373245772859, [I, I]), (0.39793742484318045, [I, Z]),
      (-0.39793742484318045, [Z, I]), (-0.01128010425623538, [Z, Z]),
      (0.18093119978423156, [X, X])]"
  by (simp add: H2_op_rhs_def)

lemma H2_combination: "to_matrix H2_op_rhs = combination (terms H2_op_rhs)"
  unfolding H2_terms H2_op_matrix by (simp add: scale_def kron_def madd_def)

section \<open>The claims\<close>

text \<open>
  C2. The exact solver is outside the repository and computes in floating point; its
  contract is that it returns the least eigenvalue of the operator it is given, up to a
  tolerance. For every library that keeps this contract on the operator of cell 2 with a
  tolerance of at most \<open>3e-8\<close>, once cells 1 to 3 have run the name \<^verbatim>\<open>ref_value\<close> is
  bound to a number that rounds to \<open>-1.85728\<close> at five decimals, and that number is the
  one the last line printed shows. The seed plays no part (it is not yet set when the
  exact solver runs).
\<close>

theorem exact_reference_value:
  assumes "npme_accurate_on L H2_op_rhs eps" and "eps \<le> 3 / 10 ^ 8"
    and "run_cells 1 (take 3 (notebook L)) fresh = (Inr (), s)"
  shows "\<exists>x. ref_value s = Some x \<and> \<bar>x - (-1.85728)\<bar> < 5 / 10 ^ 6 \<and>
             last (trace s) = Print [Text ''Reference value: '', Float5 x]"
proof -
  from prefix3[OF assms(3)] obtain h where
    s: "s = st3 (returns L h (NPME_compute_minimum_eigenvalue (Ref 1 ()) (Ref 0 H2_op_rhs)))"
    by blast
  let ?r = "returns L h (NPME_compute_minimum_eigenvalue (Ref 1 ()) (Ref 0 H2_op_rhs))"
  from assms(1) obtain lam where
    "is_min_eigenvalue (to_matrix H2_op_rhs) lam" and d: "\<bar>Re (eigenvalue ?r) - lam\<bar> \<le> eps"
    unfolding npme_accurate_on_def by blast
  then have "lam = H2_ground_energy"
    using H2_min_eigenvalue by (blast intro: min_eigenvalue_unique)
  with d assms(2) have "\<bar>Re (eigenvalue ?r) - H2_ground_energy\<bar> \<le> 3 / 10 ^ 8" by simp
  then have "\<bar>Re (eigenvalue ?r) - (-1.85728)\<bar> < 5 / 10 ^ 6"
    using H2_ground_energy_window unfolding abs_less_iff abs_le_iff by auto
  then show ?thesis unfolding s by (simp add: st3_def)
qed

theorem exact_reference_value_witness:
  "npme_accurate_on double_library H2_op_rhs (3 / 10 ^ 8) \<and> (3 / 10 ^ 8 :: real) \<le> 3 / 10 ^ 8 \<and>
   run_cells 1 (take 3 (notebook double_library)) fresh = (Inr (), st3 double_reference) \<and>
   (\<exists>x. ref_value (st3 double_reference) = Some x \<and> \<bar>x - (-1.85728)\<bar> < 5 / 10 ^ 6 \<and>
        last (trace (st3 double_reference)) = Print [Text ''Reference value: '', Float5 x])"
proof -
  have e: "(3 / 10 ^ 8 :: real) \<le> 3 / 10 ^ 8" by simp
  from exact_reference_value[OF double_accurate e double_prefix3] double_accurate e
    double_prefix3
  show ?thesis by blast
qed

text \<open>
  C5, as amended. In a run in which nothing raises, the pipeline steps are performed in
  this order: the operator is built, the exact solver gives the reference, the
  variational solver runs with an optimizer capped at 10 iterations, the delta of its
  energy against the reference is printed, its final parameters are read, they are
  wrapped as an initial state, the phase-estimation solver runs, and the delta of its
  energy against the reference is printed. The delta of the variational energy is
  printed before the parameters are extracted, not after the phase estimation.

  The data flows as the steps say. With \<open>r1\<close>, \<open>r2\<close>, \<open>r3\<close> what the library returned to the
  exact, the variational and the phase-estimation solver call: all three solvers are
  given the operator of cell 2; the reference is the real part of the eigenvalue of
  \<open>r1\<close>; the first delta printed is that of \<open>r2\<close> against the reference and the second
  that of \<open>r3\<close>; the parameters are read from the object holding \<open>r2\<close>; the state wrapped
  has the optimal parameters of \<open>r2\<close>; and the phase-estimation solver has that state as
  its \<^verbatim>\<open>state_in\<close>.
\<close>

theorem pipeline_order:
  "run_all L = (Inr (), s) \<Longrightarrow>
     pipeline (trace s) =
       [Construct_operator, Exact_solve, Variational_solve 10, Print_delta, Extract_parameters,
        Wrap_initial_state, Phase_estimation, Print_delta] \<and>
     (\<exists>r1 r2 r3 v w i.
        solver_returns L [] (trace s) = [r1, r2, r3] \<and>
        ref_value s = Some (Re (eigenvalue r1)) \<and>
        filter (\<lambda>c. step_of c \<noteq> None) (trace s) =
          [Operator_expression H2_op_rhs,
           NPME_compute_minimum_eigenvalue (Ref 1 ()) (Ref 0 H2_op_rhs),
           VQE_compute_minimum_eigenvalue v (Ref 0 H2_op_rhs),
           Print [Text ''Delta from reference energy value is '',
                  Float5 (Re (eigenvalue r2) - Re (eigenvalue r1))],
           Getattr (Ref 8 r2) ''optimal_parameters'',
           New_VarFormBased w,
           IQPE_compute_minimum_eigenvalue i (Ref 0 H2_op_rhs),
           Print [Text ''Delta from reference energy value is '',
                  Float5 (Re (eigenvalue r3) - Re (eigenvalue r1))]] \<and>
        maxiter (obj (vqe_optimizer (obj v))) = 10 \<and>
        vfb_params w = optimal_parameters r2 \<and>
        state_in (obj i) = Ref 9 w)"
proof (erule run_success)
  fix h1 h2 h3 r1 r2 r3
  assume e3: "exec (cell3 L) st2 = (Inr (), st3 r1)"
    and e4: "exec (cell4 L) (st3 r1) = (Inr (), st4 r1 r2)"
    and e6: "exec (cell6 L) (st5 r1 r2) = (Inr (), st6 r1 r2 r3)"
    and s: "s = st7 r1 r2 r3"
  have "solver_returns L [] (trace s) = [r1, r2, r3]"
    unfolding s returns_st7
    using solve3_hist[OF e3] solve4_hist[OF e4] solve6_hist[OF e6] by simp
  moreover have "ref_value s = Some (Re (eigenvalue r1))"
    unfolding s by (rule flow_objects)
  moreover note flow_st7[of r1 r2 r3, folded s] flow_objects(1) flow_objects(2)[of r2]
    flow_objects(3)[of r2]
  ultimately have
    "\<exists>r1 r2 r3 v w i.
        solver_returns L [] (trace s) = [r1, r2, r3] \<and>
        ref_value s = Some (Re (eigenvalue r1)) \<and>
        filter (\<lambda>c. step_of c \<noteq> None) (trace s) =
          [Operator_expression H2_op_rhs,
           NPME_compute_minimum_eigenvalue (Ref 1 ()) (Ref 0 H2_op_rhs),
           VQE_compute_minimum_eigenvalue v (Ref 0 H2_op_rhs),
           Print [Text ''Delta from reference energy value is '',
                  Float5 (Re (eigenvalue r2) - Re (eigenvalue r1))],
           Getattr (Ref 8 r2) ''optimal_parameters'',
           New_VarFormBased w,
           IQPE_compute_minimum_eigenvalue i (Ref 0 H2_op_rhs),
           Print [Text ''Delta from reference energy value is '',
                  Float5 (Re (eigenvalue r3) - Re (eigenvalue r1))]] \<and>
        maxiter (obj (vqe_optimizer (obj v))) = 10 \<and>
        vfb_params w = optimal_parameters r2 \<and>
        state_in (obj i) = Ref 9 w"
    by blast
  then show ?thesis unfolding s by (simp add: pipeline_st7)
qed

theorem pipeline_order_witness:
  "run_all sample_library = (Inr (), st7 sample_reference sample_vqe sample_iqpe) \<and>
   solver_returns sample_library [] (trace (st7 sample_reference sample_vqe sample_iqpe)) =
     [sample_reference, sample_vqe, sample_iqpe] \<and>
   pipeline (trace (st7 sample_reference sample_vqe sample_iqpe)) =
       [Construct_operator, Exact_solve, Variational_solve 10, Print_delta, Extract_parameters,
        Wrap_initial_state, Phase_estimation, Print_delta]"
  using pipeline_order[OF run_sample] run_sample
  by (simp add: returns_st7 sample_library_def)

text \<open>
  C5, as stated, fails: the steps of the run against the sample library are not the seven
  steps in the order of the specification.
\<close>

theorem pipeline_order_counterexample:
  "fst (run_all sample_library) = Inr () \<and>
   pipeline (trace (snd (run_all sample_library))) \<noteq> spec_pipeline"
  by (simp add: run_sample pipeline_st7 spec_pipeline_def)




text \<open>
  C7. The operator of cell 2 is the linear combination of the five Pauli strings
  \<open>II\<close>, \<open>IZ\<close>, \<open>ZI\<close>, \<open>ZZ\<close>, \<open>XX\<close> with the five coefficients of the source; it acts on two
  qubits, its sum is well formed, and its matrix is that of the combination. Cell 2 binds
  \<^verbatim>\<open>H2_op\<close> to a fresh object holding it (unless building it raises), and whatever the
  library does and from whatever state, no other cell changes what \<^verbatim>\<open>H2_op\<close> is bound to.
\<close>

theorem H2_op_fixed:
  "terms H2_op_rhs =
     [(-1.052373245772859, [I, I]), (0.39793742484318045, [I, Z]),
      (-0.39793742484318045, [Z, I]), (-0.01128010425623538, [Z, Z]),
      (0.18093119978423156, [X, X])] \<and>
   num_qubits H2_op_rhs = 2 \<and> well_formed H2_op_rhs \<and>
   to_matrix H2_op_rhs = combination (terms H2_op_rhs) \<and>
   H2_op (snd (exec (cell2 L) s)) =
     (if raises L (trace s) (Operator_expression H2_op_rhs) = None
      then Some (Ref (next_addr s) H2_op_rhs) else H2_op s) \<and>
   H2_op (snd (exec (cell1 L) s)) = H2_op s \<and>
   H2_op (snd (exec (cell3 L) s)) = H2_op s \<and>
   H2_op (snd (exec (cell4 L) s)) = H2_op s \<and>
   H2_op (snd (exec (cell5 L) s)) = H2_op s \<and>
   H2_op (snd (exec (cell6 L) s)) = H2_op s \<and>
   H2_op (snd (exec (cell7 L) s)) = H2_op s"
  using H2_terms H2_combination cell2_binds_H2_op[of L s] cells_keep_H2_op[of L s]
  by (simp add: H2_op_rhs_def)

text \<open>
  C8. Whatever the library does, a run of the notebook ends without an error only if no
  request raised. If it ends with an error, the error is the exception of the first
  request that raised, that request is the last one made (nothing is retried and nothing
  runs after it), and the run reports the cell in which the request was made.
\<close>

theorem exception_halts_run:
  "run_all L = (out, s) \<Longrightarrow>
     (case out of
        Inr _ \<Rightarrow> first_raise L [] (trace s) = None
      | Inl (n, e) \<Rightarrow>
          first_raise L [] (trace s) = Some (length (trace s) - 1, e) \<and>
          n = cell_of_request (length (trace s) - 1))"
  using run_all_reported[of L] by (auto simp add: reported_def split: sum.splits)

theorem exception_halts_run_witness:
  "run_all failing_library = (Inl (6, LibraryError ''AquaError''), snd (run_all failing_library)) \<and>
   first_raise failing_library [] (trace (snd (run_all failing_library))) =
     Some (28, LibraryError ''AquaError'') \<and>
   cell_of_request 28 = 6"
proof -
  have r: "run_all failing_library =
      (Inl (6, LibraryError ''AquaError''), snd (run_all failing_library))"
    using run_failing(1) by (simp add: prod_eq_iff)
  from exception_halts_run[OF r] run_failing(2) r show ?thesis by simp
qed

text \<open>
  C9. When cells 1 to 5 and then cell 6 have run without an exception: before cell 6
  \<^verbatim>\<open>result_vqe\<close> is bound to the object the variational solver returned; after cell 6
  \<^verbatim>\<open>result_vqe\<close> and \<^verbatim>\<open>result_iqpe\<close> are bound to one and the same object, the one the
  phase-estimation solver returned, at another address than the variational result.
\<close>

theorem result_vqe_rebound:
  assumes "run_cells 1 (take 5 (notebook L)) fresh = (Inr (), s5)"
    and "exec (cell6 L) s5 = (Inr (), s6)"
  shows "\<exists>r5 r6 v i h.
           result_vqe s5 = Some r5 \<and> vqe s5 = Some v \<and> H2_op s5 = Some h \<and>
           (\<exists>hist. obj r5 = returns L hist (VQE_compute_minimum_eigenvalue v h)) \<and>
           result_iqpe s6 = Some r6 \<and> result_vqe s6 = Some r6 \<and> iqpe s6 = Some i \<and>
           (\<exists>hist. obj r6 = returns L hist (IQPE_compute_minimum_eigenvalue i h)) \<and>
           addr r6 \<noteq> addr r5"
proof -
  from prefix5[OF assms(1)] obtain h1 h2 where
    s5: "s5 = st5 (returns L h1 (NPME_compute_minimum_eigenvalue (Ref 1 ()) (Ref 0 H2_op_rhs)))
                  (returns L h2 (VQE_compute_minimum_eigenvalue vqe_obj (Ref 0 H2_op_rhs)))"
    by blast
  define r1 where "r1 = returns L h1 (NPME_compute_minimum_eigenvalue (Ref 1 ()) (Ref 0 H2_op_rhs))"
  define r2 where "r2 = returns L h2 (VQE_compute_minimum_eigenvalue vqe_obj (Ref 0 H2_op_rhs))"
  from step6[OF assms(2)[unfolded s5 r1_def[symmetric] r2_def[symmetric]]] obtain h3 where
    s6: "s6 = st6 r1 r2
           (returns L h3 (IQPE_compute_minimum_eigenvalue (iqpe_obj r2) (Ref 0 H2_op_rhs)))"
    by blast
  define r3 where
    "r3 = returns L h3 (IQPE_compute_minimum_eigenvalue (iqpe_obj r2) (Ref 0 H2_op_rhs))"
  have a: "result_vqe s5 = Some (Ref 8 r2)" "vqe s5 = Some vqe_obj"
    "H2_op s5 = Some (Ref 0 H2_op_rhs)"
    unfolding s5 r1_def[symmetric] r2_def[symmetric] by (simp_all add: st_defs)
  have b: "result_iqpe s6 = Some (Ref 12 r3)" "result_vqe s6 = Some (Ref 12 r3)"
    "iqpe s6 = Some (iqpe_obj r2)"
    unfolding s6 r3_def[symmetric] by (simp_all add: st_defs)
  have c: "\<exists>hist. obj (Ref 8 r2) = returns L hist (VQE_compute_minimum_eigenvalue vqe_obj (Ref 0 H2_op_rhs))"
    "\<exists>hist. obj (Ref 12 r3) =
        returns L hist (IQPE_compute_minimum_eigenvalue (iqpe_obj r2) (Ref 0 H2_op_rhs))"
    using r2_def r3_def by auto
  have d: "addr (Ref 12 r3) \<noteq> addr (Ref 8 r2)" by simp
  from a b c d show ?thesis by blast
qed

theorem result_vqe_rebound_witness:
  "run_cells 1 (take 5 (notebook sample_library)) fresh =
     (Inr (), st5 sample_reference sample_vqe) \<and>
   exec (cell6 sample_library) (st5 sample_reference sample_vqe) =
     (Inr (), st6 sample_reference sample_vqe sample_iqpe) \<and>
   result_vqe (st6 sample_reference sample_vqe sample_iqpe) =
     result_iqpe (st6 sample_reference sample_vqe sample_iqpe) \<and>
   result_vqe (st6 sample_reference sample_vqe sample_iqpe) \<noteq>
     result_vqe (st5 sample_reference sample_vqe)"
  using result_vqe_rebound[OF sample_prefix5 sample_cell6] sample_prefix5 sample_cell6
  by auto

text \<open>
  C10. In a run in which nothing raises, the variational solver runs on a quantum
  instance built without \<^verbatim>\<open>shots\<close>, the phase-estimation solver on another quantum instance,
  built with \<^verbatim>\<open>shots=100\<close>; both have the simulator seed and the transpiler seed 5 and
  the same \<^verbatim>\<open>qasm_simulator\<close> backend object.
\<close>

theorem solver_quantum_instances:
  "run_all L = (Inr (), s) \<Longrightarrow>
     List.map_filter solver_instance (trace s) =
     [(''VQE'', Ref 6 \<lparr>qi_backend = Ref 5 ''qasm_simulator'', shots = None,
                       seed_simulator = Some 5, seed_transpiler = Some 5\<rparr>),
      (''IQPE'', Ref 10 \<lparr>qi_backend = Ref 5 ''qasm_simulator'', shots = Some 100,
                         seed_simulator = Some 5, seed_transpiler = Some 5\<rparr>)]"
  by (erule run_success) (simp add: instances_st7)

theorem solver_quantum_instances_witness:
  "run_all sample_library = (Inr (), st7 sample_reference sample_vqe sample_iqpe) \<and>
   List.map_filter solver_instance (trace (st7 sample_reference sample_vqe sample_iqpe)) =
     [(''VQE'', Ref 6 \<lparr>qi_backend = Ref 5 ''qasm_simulator'', shots = None,
                       seed_simulator = Some 5, seed_transpiler = Some 5\<rparr>),
      (''IQPE'', Ref 10 \<lparr>qi_backend = Ref 5 ''qasm_simulator'', shots = Some 100,
                         seed_simulator = Some 5, seed_transpiler = Some 5\<rparr>)]"
  using solver_quantum_instances[OF run_sample] run_sample by simp

end
